theory Spec2Isabelle
  imports Main "HOL-Library.Sublist" "HOL-Library.Char_ord" "HOL-Library.List_Lexorder"
    "HOL-Library.Multiset"
begin

section \<open>The data model\<close>

text \<open>
  The application is a REST backend over a relational database. A table is the list of
  its rows in storage order. A foreign key holds the primary key of the row it refers to;
  the one nullable foreign key, \<open>BookReview.reviewed_by\<close>, is an \<open>option\<close>.

  \<open>BookReview\<close> is declared by migration 0004 (\<open>id\<close>, \<open>body\<close>, \<open>book\<close>,
  \<open>reviewed_by\<close>). The other three models are declared outside the sources at hand; their
  columns are the ones the serializers name in their \<open>fields\<close>.
\<close>

record user =
  user_id :: nat
  username :: string

record book =
  book_id :: nat
  title :: string
  author :: string
  publication_year :: "int option"
  featured :: bool

record book_record =
  record_id :: nat
  record_book :: nat
  reader :: nat
  reading_state :: string

record book_review =
  review_id :: nat
  body :: string
  review_book :: nat
  reviewed_by :: "nat option"

text \<open>
  The database. \<open>favorite_books\<close> is the through table of the many-to-many relation between
  users and books: one row \<open>(user, book)\<close> per membership. The three sequences hand out
  the primary keys of new rows.
\<close>

record db =
  users :: "user list"
  books :: "book list"
  book_records :: "book_record list"
  book_reviews :: "book_review list"
  favorite_books :: "(nat \<times> nat) list"
  book_seq :: nat
  record_seq :: nat
  review_seq :: nat

section \<open>Requests, responses and exceptions\<close>

text \<open>
  What a serializer produces and a response carries. \<open>JUrl v k\<close> is the hyperlink a
  \<open>HyperlinkedRelatedField\<close> renders: the route named \<open>v\<close> at primary key \<open>k\<close> (the
  routing table that turns it into a path is not part of the views).
\<close>

datatype json =
  JNull
  | JBool bool
  | JInt int
  | JStr string
  | JUrl string nat
  | JList "json list"
  | JDict "(string \<times> json) list"

datatype response = Response (data: json) (status: nat)

text \<open>
  The exceptions that cross the views: the database's \<open>IntegrityError\<close>, the
  \<open>Http404\<close> of \<open>get_object_or_404\<close>, and the \<open>ValidationError\<close> of
  \<open>serializer.is_valid(raise_exception=True)\<close> with its detail.
\<close>

datatype exn = IntegrityError | Http404 | ValidationError json

text \<open>
  A request as the views read it: \<open>request.user\<close> (the primary key of the authenticated
  user; every view has \<open>IsAuthenticated\<close> among its permission classes, and the framework
  runs the permission checks before it calls the handler), \<open>request.query_params\<close>,
  \<open>self.kwargs["book_pk"]\<close> of the nested routes, and \<open>request.data\<close>.
\<close>

record 'd request =
  req_user :: nat
  query_params :: "string \<rightharpoonup> string"
  book_pk :: nat
  req_data :: 'd

text \<open>
  A handler runs on a database and leaves a database; it returns a response or raises.
\<close>

type_synonym 'a result = "(exn + 'a) \<times> db"

text \<open>
  The framework's exception handler, applied to what a handler raises: \<open>Http404\<close> becomes
  a 404 response and \<open>ValidationError\<close> a 400 response with the detail. Any other
  exception is not handled: it is re-raised and surfaces as the raw error.
\<close>

fun handle_exception :: "exn \<Rightarrow> exn + response" where
  "handle_exception Http404 = Inr (Response (JDict [(''detail'', JStr ''Not found.'')]) 404)"
| "handle_exception (ValidationError detail) = Inr (Response detail 400)"
| "handle_exception e = Inl e"

definition dispatch :: "response result \<Rightarrow> response result" where
  "dispatch r = (case fst r of Inl e \<Rightarrow> (handle_exception e, snd r) | Inr resp \<Rightarrow> (Inr resp, snd r))"

section \<open>The object-relational layer\<close>

text \<open>\<open>get_object_or_404(Model, pk=k)\<close>: the row with that primary key, or \<open>Http404\<close>.\<close>

definition get_object_or_404 :: "('r \<Rightarrow> nat) \<Rightarrow> 'r list \<Rightarrow> nat \<Rightarrow> exn + 'r" where
  "get_object_or_404 pk rows k =
     (case find (\<lambda>r. pk r = k) rows of None \<Rightarrow> Inl Http404 | Some r \<Rightarrow> Inr r)"

text \<open>
  The lookup \<open>title__icontains=s\<close>: the database compares \<open>UPPER\<close> of the column with
  \<open>UPPER\<close> of the pattern \<open>%s%\<close>, in which the wildcards of \<open>s\<close> are escaped, so the
  folded \<open>s\<close> has to occur literally in the folded column. Which letters \<open>UPPER\<close> folds
  is decided by the database, its encoding and its locale (on a UTF-8 database it folds
  letters outside ASCII too), so the folding is the argument \<open>db_upper\<close>. It works letter
  by letter and leaves the wildcards and the escape character as they are, so folding the
  pattern folds the term inside it.
\<close>

definition icontains :: "(string \<Rightarrow> string) \<Rightarrow> string \<Rightarrow> string \<Rightarrow> bool" where
  "icontains db_upper column s = sublist (db_upper s) (db_upper column)"

text \<open>
  The reverse relation \<open>book.reviews\<close> (\<open>related_name="reviews"\<close> in migration 0004) and
  the many-to-many manager \<open>user.favorite_books.all()\<close>: the books joined to the user's
  rows of the through table.
\<close>

definition book_reviews_of :: "db \<Rightarrow> book \<Rightarrow> book_review list" where
  "book_reviews_of s b = filter (\<lambda>r. review_book r = book_id b) (book_reviews s)"

definition favorite_books_all :: "db \<Rightarrow> nat \<Rightarrow> book list" where
  "favorite_books_all s u = filter (\<lambda>b. (u, book_id b) \<in> set (favorite_books s)) (books s)"

section \<open>The serializers\<close>

text \<open>
  Each serializer lists its \<open>fields\<close> in the order of its \<open>Meta\<close>. A
  \<open>SlugRelatedField\<close> renders the named attribute of the related row and \<open>null\<close> for a
  null foreign key. The foreign-key constraints leave no reference without its row; the
  serializers below render \<open>null\<close> for such a reference.
\<close>

definition json_of_year :: "int option \<Rightarrow> json" where
  "json_of_year y = (case y of None \<Rightarrow> JNull | Some n \<Rightarrow> JInt n)"

definition BookSerializer :: "book \<Rightarrow> json" where
  "BookSerializer b = JDict
     [(''pk'', JInt (int (book_id b))),
      (''title'', JStr (title b)),
      (''author'', JStr (author b)),
      (''publication_year'', json_of_year (publication_year b)),
      (''featured'', JBool (featured b))]"

definition BookDetailSerializer :: "db \<Rightarrow> book \<Rightarrow> json" where
  "BookDetailSerializer s b = JDict
     [(''pk'', JInt (int (book_id b))),
      (''title'', JStr (title b)),
      (''author'', JStr (author b)),
      (''publication_year'', json_of_year (publication_year b)),
      (''featured'', JBool (featured b)),
      (''reviews'', JList (map (\<lambda>r. JUrl ''book_reviews-detail'' (review_id r)) (book_reviews_of s b)))]"

definition BookRecordSerializer :: "db \<Rightarrow> book_record \<Rightarrow> json" where
  "BookRecordSerializer s r = JDict
     [(''pk'', JInt (int (record_id r))),
      (''book'', (case find (\<lambda>b. book_id b = record_book r) (books s) of
                    None \<Rightarrow> JNull | Some b \<Rightarrow> BookSerializer b)),
      (''reader'', (case find (\<lambda>u. user_id u = reader r) (users s) of
                    None \<Rightarrow> JNull | Some u \<Rightarrow> JStr (username u))),
      (''reading_state'', JStr (reading_state r))]"

definition BookReviewSerializer :: "db \<Rightarrow> book_review \<Rightarrow> json" where
  "BookReviewSerializer s r = JDict
     [(''pk'', JInt (int (review_id r))),
      (''body'', JStr (body r)),
      (''book'', (case find (\<lambda>b. book_id b = review_book r) (books s) of
                    None \<Rightarrow> JNull | Some b \<Rightarrow> JStr (title b))),
      (''reviewed_by'', (case reviewed_by r of
                    None \<Rightarrow> JNull
                  | Some k \<Rightarrow> (case find (\<lambda>u. user_id u = k) (users s) of
                                None \<Rightarrow> JNull | Some u \<Rightarrow> JStr (username u))))]"

section \<open>The framework's generic views\<close>

text \<open>
  \<open>ListModelMixin.list\<close>: the view's queryset, serialized with \<open>many=True\<close>, in a
  response of status 200. The views name no filter backend, and no pagination class is
  set in what the sources show.
\<close>

definition ListModelMixin_list :: "('r \<Rightarrow> json) \<Rightarrow> 'r list \<Rightarrow> response" where
  "ListModelMixin_list serializer queryset = Response (JList (map serializer queryset)) 200"

text \<open>
  \<open>CreateModelMixin.create\<close>: \<open>serializer.is_valid(raise_exception=True)\<close>, then
  \<open>perform_create\<close>, then status 201 with the new row serialized. The field validation a
  \<open>ModelSerializer\<close> derives from the model's declaration is the argument
  \<open>run_validation\<close>: it turns \<open>request.data\<close> into the validated data, or into the
  detail of a \<open>ValidationError\<close>.
\<close>

definition CreateModelMixin_create ::
  "('d \<Rightarrow> json + 'v) \<Rightarrow> ('v \<Rightarrow> 'd request \<Rightarrow> db \<Rightarrow> 'r result) \<Rightarrow> (db \<Rightarrow> 'r \<Rightarrow> json) \<Rightarrow>
   'd request \<Rightarrow> db \<Rightarrow> response result" where
  "CreateModelMixin_create run_validation perform_create serializer request s =
     (case run_validation (req_data request) of
        Inl detail \<Rightarrow> (Inl (ValidationError detail), s)
      | Inr validated_data \<Rightarrow>
          (case perform_create validated_data request s of
             (Inl e, s') \<Rightarrow> (Inl e, s')
           | (Inr obj, s') \<Rightarrow> (Inr (Response (serializer s' obj) 201), s')))"

section \<open>Inserting rows\<close>

text \<open>The validated data of a book: the writable fields of its serializer.\<close>

record book_data =
  data_title :: string
  data_author :: string
  data_publication_year :: "int option"
  data_featured :: bool

text \<open>
  Modelled from the spec: the uniqueness constraint of the book table, whose declaration
  is not among the sources ("title+author unique together"). The insert of a row with the
  title and author of a stored row raises \<open>IntegrityError\<close> and stores nothing.
\<close>

definition Book_objects_create :: "book_data \<Rightarrow> db \<Rightarrow> book result" where
  "Book_objects_create d s =
     (if \<exists>b \<in> set (books s). title b = data_title d \<and> author b = data_author d
      then (Inl IntegrityError, s)
      else
        (let b = \<lparr>book_id = book_seq s, title = data_title d, author = data_author d,
                   publication_year = data_publication_year d, featured = data_featured d\<rparr>
         in (Inr b, s\<lparr>books := books s @ [b], book_seq := Suc (book_seq s)\<rparr>)))"

text \<open>
  Modelled from the spec: the uniqueness constraint of the reading-record table, whose
  declaration is not among the sources ("unique per reader+book").
\<close>

definition BookRecord_objects_create :: "string \<Rightarrow> nat \<Rightarrow> nat \<Rightarrow> db \<Rightarrow> book_record result" where
  "BookRecord_objects_create state u b s =
     (if \<exists>r \<in> set (book_records s). reader r = u \<and> record_book r = b
      then (Inl IntegrityError, s)
      else
        (let r = \<lparr>record_id = record_seq s, record_book = b, reader = u, reading_state = state\<rparr>
         in (Inr r, s\<lparr>book_records := book_records s @ [r], record_seq := Suc (record_seq s)\<rparr>)))"

text \<open>
  The constraint \<open>unique_user_review\<close> of migration 0004, on \<open>(reviewed_by, book)\<close>. A
  null \<open>reviewed_by\<close> equals nothing, so rows without a reviewer never collide.
\<close>

definition BookReview_objects_create :: "string \<Rightarrow> nat \<Rightarrow> nat \<Rightarrow> db \<Rightarrow> book_review result" where
  "BookReview_objects_create text u b s =
     (if \<exists>r \<in> set (book_reviews s). reviewed_by r = Some u \<and> review_book r = b
      then (Inl IntegrityError, s)
      else
        (let r = \<lparr>review_id = review_seq s, body = text, review_book = b, reviewed_by = Some u\<rparr>
         in (Inr r, s\<lparr>book_reviews := book_reviews s @ [r], review_seq := Suc (review_seq s)\<rparr>)))"

text \<open>
  \<open>user.favorite_books.add(book)\<close>: the manager looks up which of the given books the
  user's rows of the through table already hold and inserts rows for the others only.
\<close>

definition favorite_books_add :: "nat \<Rightarrow> nat \<Rightarrow> (nat \<times> nat) list \<Rightarrow> (nat \<times> nat) list" where
  "favorite_books_add u b rows = (if (u, b) \<in> set rows then rows else rows @ [(u, b)])"

section \<open>BookViewSet\<close>

text \<open>
  \<open>get_queryset\<close>: with a \<open>search\<close> query parameter, the books whose title contains
  the term; without, the class's \<open>queryset\<close>, \<open>Book.objects.all().order_by("title")\<close>.
\<close>

definition BookViewSet_get_queryset ::
  "(string \<Rightarrow> string) \<Rightarrow> 'd request \<Rightarrow> db \<Rightarrow> book list" where
  "BookViewSet_get_queryset db_upper request s =
     (let search_term = query_params request ''search'' in
      case search_term of
        Some t \<Rightarrow> filter (\<lambda>b. icontains db_upper (title b) t) (books s)
      | None \<Rightarrow> sort_key title (books s))"

text \<open>The \<open>list\<close> action; for it \<open>get_serializer_class\<close> gives \<open>BookSerializer\<close>.\<close>

definition BookViewSet_list :: "(string \<Rightarrow> string) \<Rightarrow> 'd request \<Rightarrow> db \<Rightarrow> response result" where
  "BookViewSet_list db_upper request s =
     (Inr (ListModelMixin_list BookSerializer (BookViewSet_get_queryset db_upper request s)), s)"

text \<open>
  \<open>create\<close>: the framework's \<open>create\<close> (with the default \<open>perform_create\<close>, which
  saves the validated data) inside \<open>try\<close>; \<open>except IntegrityError\<close> answers 400 with
  \<open>error_data\<close>. Every other exception passes.
\<close>

definition BookViewSet_error_data :: json where
  "BookViewSet_error_data = JDict [(''error'',
     JStr ''Unique constraint violation: there is already a book with this title by this author.'')]"

definition BookViewSet_create :: "('d \<Rightarrow> json + book_data) \<Rightarrow> 'd request \<Rightarrow> db \<Rightarrow> response result" where
  "BookViewSet_create run_validation request s =
     (case CreateModelMixin_create run_validation (\<lambda>d _. Book_objects_create d)
             BookDetailSerializer request s of
        (Inl e, s') \<Rightarrow>
          (if e = IntegrityError then (Inr (Response BookViewSet_error_data 400), s')
           else (Inl e, s'))
      | (Inr resp, s') \<Rightarrow> (Inr resp, s'))"

text \<open>
  \<open>featured\<close>: \<open>Book.objects.filter(featured=True)\<close>, serialized with
  \<open>get_serializer(..., many=True)\<close>. The action is not \<open>list\<close>, so
  \<open>get_serializer_class\<close> gives \<open>BookDetailSerializer\<close>. A bare \<open>Response\<close> has
  status 200.
\<close>

definition BookViewSet_featured :: "'d request \<Rightarrow> db \<Rightarrow> response result" where
  "BookViewSet_featured request s =
     (let featured_books = filter (\<lambda>b. featured b = True) (books s)
      in (Inr (Response (JList (map (BookDetailSerializer s) featured_books)) 200), s))"

text \<open>\<open>favorites\<close>: \<open>request.user.favorite_books.all()\<close>, serialized the same way.\<close>

definition BookViewSet_favorites :: "'d request \<Rightarrow> db \<Rightarrow> response result" where
  "BookViewSet_favorites request s =
     (let favorited_books = favorite_books_all s (req_user request)
      in (Inr (Response (JList (map (BookDetailSerializer s) favorited_books)) 200), s))"

section \<open>BookRecordViewSet\<close>

definition BookRecordViewSet_get_queryset :: "'d request \<Rightarrow> db \<Rightarrow> book_record list" where
  "BookRecordViewSet_get_queryset request s =
     (let queryset = book_records s
      in filter (\<lambda>r. reader r = req_user request \<and> record_book r = book_pk request) queryset)"

definition BookRecordViewSet_list :: "'d request \<Rightarrow> db \<Rightarrow> response result" where
  "BookRecordViewSet_list request s =
     (Inr (ListModelMixin_list (BookRecordSerializer s) (BookRecordViewSet_get_queryset request s)), s)"

text \<open>
  \<open>perform_create\<close>: the book of the URL or \<open>Http404\<close>, then
  \<open>serializer.save(reader=self.request.user, book=book)\<close>. The validated data is the
  reading state.
\<close>

definition BookRecordViewSet_perform_create :: "string \<Rightarrow> 'd request \<Rightarrow> db \<Rightarrow> book_record result" where
  "BookRecordViewSet_perform_create validated_data request s =
     (case get_object_or_404 book_id (books s) (book_pk request) of
        Inl e \<Rightarrow> (Inl e, s)
      | Inr book \<Rightarrow> BookRecord_objects_create validated_data (req_user request) (book_id book) s)"

definition BookRecordViewSet_error_data :: json where
  "BookRecordViewSet_error_data = JDict [(''error'',
     JStr ''Unique constraint violation: this user has already created a book record for this book.'')]"

definition BookRecordViewSet_create :: "('d \<Rightarrow> json + string) \<Rightarrow> 'd request \<Rightarrow> db \<Rightarrow> response result" where
  "BookRecordViewSet_create run_validation request s =
     (case CreateModelMixin_create run_validation BookRecordViewSet_perform_create
             BookRecordSerializer request s of
        (Inl e, s') \<Rightarrow>
          (if e = IntegrityError then (Inr (Response BookRecordViewSet_error_data 400), s')
           else (Inl e, s'))
      | (Inr resp, s') \<Rightarrow> (Inr resp, s'))"

section \<open>BookReviewListCreateView\<close>

text \<open>
  \<open>get_queryset\<close>: the reviews of the book of the URL; with a \<open>search\<close> query parameter,
  those among them that \<open>body__search\<close> keeps. That lookup is the database's full-text
  match of a document against a query; which documents a query matches is decided by the
  database's text-search configuration, so the match is the argument \<open>body_search\<close>.
\<close>

definition BookReviewListCreateView_get_queryset ::
  "(string \<Rightarrow> string \<Rightarrow> bool) \<Rightarrow> 'd request \<Rightarrow> db \<Rightarrow> book_review list" where
  "BookReviewListCreateView_get_queryset body_search request s =
     (let queryset = filter (\<lambda>r. review_book r = book_pk request) (book_reviews s);
          search_term = query_params request ''search''
      in case search_term of
           Some t \<Rightarrow> filter (\<lambda>r. body_search (body r) t) queryset
         | None \<Rightarrow> queryset)"

definition BookReviewListCreateView_list ::
  "(string \<Rightarrow> string \<Rightarrow> bool) \<Rightarrow> 'd request \<Rightarrow> db \<Rightarrow> response result" where
  "BookReviewListCreateView_list body_search request s =
     (Inr (ListModelMixin_list (BookReviewSerializer s)
            (BookReviewListCreateView_get_queryset body_search request s)), s)"

text \<open>
  \<open>perform_create\<close>: the book of the URL or \<open>Http404\<close>, then
  \<open>serializer.save(reviewed_by=self.request.user, book=book)\<close>. The validated data is
  the body.
\<close>

definition BookReviewListCreateView_perform_create ::
  "string \<Rightarrow> 'd request \<Rightarrow> db \<Rightarrow> book_review result" where
  "BookReviewListCreateView_perform_create validated_data request s =
     (case get_object_or_404 book_id (books s) (book_pk request) of
        Inl e \<Rightarrow> (Inl e, s)
      | Inr book \<Rightarrow> BookReview_objects_create validated_data (req_user request) (book_id book) s)"

text \<open>The view does not override \<open>create\<close>: it is the framework's, as it stands.\<close>

definition BookReviewListCreateView_create ::
  "('d \<Rightarrow> json + string) \<Rightarrow> 'd request \<Rightarrow> db \<Rightarrow> response result" where
  "BookReviewListCreateView_create run_validation request s =
     CreateModelMixin_create run_validation BookReviewListCreateView_perform_create
       BookReviewSerializer request s"

section \<open>CreateFavoriteView\<close>

definition CreateFavoriteView_post :: "'d request \<Rightarrow> db \<Rightarrow> response result" where
  "CreateFavoriteView_post request s =
     (let user = req_user request in
      case get_object_or_404 book_id (books s) (book_pk request) of
        Inl e \<Rightarrow> (Inl e, s)
      | Inr book \<Rightarrow>
          (let s' = s\<lparr>favorite_books := favorite_books_add user (book_id book) (favorite_books s)\<rparr>
           in (Inr (Response (BookDetailSerializer s' book) 201), s')))"

section \<open>Deleting a user\<close>

text \<open>
  The \<open>on_delete\<close> policies that migration 0004 gives the foreign keys of a review:
  \<open>CASCADE\<close> for \<open>book\<close>, \<open>SET_NULL\<close> for \<open>reviewed_by\<close>. When the row a foreign key
  refers to is deleted, \<open>CASCADE\<close> deletes the referring rows and \<open>SET_NULL\<close> keeps them
  and nulls the column.
\<close>

datatype on_delete = CASCADE | SET_NULL

definition BookReview_book_on_delete :: on_delete where
  "BookReview_book_on_delete = CASCADE"

definition BookReview_reviewed_by_on_delete :: on_delete where
  "BookReview_reviewed_by_on_delete = SET_NULL"

fun reviewed_by_collect :: "on_delete \<Rightarrow> nat \<Rightarrow> book_review list \<Rightarrow> book_review list" where
  "reviewed_by_collect CASCADE u rows = filter (\<lambda>r. reviewed_by r \<noteq> Some u) rows"
| "reviewed_by_collect SET_NULL u rows =
     map (\<lambda>r. if reviewed_by r = Some u then r\<lparr>reviewed_by := None\<rparr> else r) rows"

text \<open>
  \<open>user.delete()\<close>: the user's row goes, the rows of the through table that name the user
  go with it (the through table's foreign keys cascade), and the reviews are treated by
  the policy of \<open>reviewed_by\<close>. The policy of the reading records' \<open>reader\<close> is declared
  in an earlier migration, which is not among the sources: \<open>reader_collect\<close> is what it
  makes of the reading records, or \<open>None\<close> when it refuses the deletion (then nothing is
  deleted).
\<close>

definition User_delete ::
  "(nat \<Rightarrow> book_record list \<Rightarrow> book_record list option) \<Rightarrow> nat \<Rightarrow> db \<Rightarrow> db option" where
  "User_delete reader_collect u s =
     (case reader_collect u (book_records s) of
        None \<Rightarrow> None
      | Some records \<Rightarrow>
          Some (s\<lparr>users := filter (\<lambda>x. user_id x \<noteq> u) (users s),
                  book_records := records,
                  book_reviews := reviewed_by_collect BookReview_reviewed_by_on_delete u (book_reviews s),
                  favorite_books := filter (\<lambda>(x, b). x \<noteq> u) (favorite_books s)\<rparr>))"

section \<open>What the database guarantees\<close>

text \<open>
  A foreign-key constraint the database keeps at all times: the book of every reading
  record is a stored book.
\<close>

definition record_fk_ok :: "db \<Rightarrow> bool" where
  "record_fk_ok s =
     list_all (\<lambda>r. list_ex (\<lambda>b. book_id b = record_book r) (books s)) (book_records s)"

text \<open>Reading a key of a serialized object.\<close>

definition json_field :: "string \<Rightarrow> json \<Rightarrow> json option" where
  "json_field k j = (case j of JDict kvs \<Rightarrow> map_of kvs k | _ \<Rightarrow> None)"

section \<open>A database and requests to run the views on\<close>

definition example_db :: db where
  "example_db =
     \<lparr>users = [\<lparr>user_id = 1, username = ''alice''\<rparr>, \<lparr>user_id = 2, username = ''bob''\<rparr>],
      books = [\<lparr>book_id = 1, title = ''Dune'', author = ''Herbert'',
                 publication_year = Some 1965, featured = True\<rparr>,
               \<lparr>book_id = 2, title = ''Emma'', author = ''Austen'',
                 publication_year = None, featured = False\<rparr>],
      book_records = [\<lparr>record_id = 1, record_book = 1, reader = 1, reading_state = ''reading''\<rparr>,
                      \<lparr>record_id = 2, record_book = 1, reader = 2, reading_state = ''read''\<rparr>],
      book_reviews = [\<lparr>review_id = 1, body = ''great sand'', review_book = 1, reviewed_by = Some 1\<rparr>,
                      \<lparr>review_id = 2, body = ''too long'', review_book = 2, reviewed_by = Some 2\<rparr>],
      favorite_books = [(2, 2)],
      book_seq = 3, record_seq = 3, review_seq = 3\<rparr>"

definition dune :: book where
  "dune = \<lparr>book_id = 1, title = ''Dune'', author = ''Herbert'',
            publication_year = Some 1965, featured = True\<rparr>"

definition emma :: book where
  "emma = \<lparr>book_id = 2, title = ''Emma'', author = ''Austen'',
            publication_year = None, featured = False\<rparr>"

text \<open>Alice (user 1) on the routes of book 1, without and with a search term.\<close>

definition example_request :: "unit request" where
  "example_request = \<lparr>req_user = 1, query_params = Map.empty, book_pk = 1, req_data = ()\<rparr>"

definition search_request :: "unit request" where
  "search_request =
     \<lparr>req_user = 1, query_params = [''search'' \<mapsto> ''uN''], book_pk = 1, req_data = ()\<rparr>"

text \<open>Bob (user 2) on the routes of book 2, and Alice on a book that does not exist.\<close>

definition bob_request :: "unit request" where
  "bob_request = \<lparr>req_user = 2, query_params = Map.empty, book_pk = 2, req_data = ()\<rparr>"

definition missing_book_request :: "unit request" where
  "missing_book_request = \<lparr>req_user = 1, query_params = Map.empty, book_pk = 7, req_data = ()\<rparr>"

text \<open>
  Three creations that repeat a stored key: the book "Dune" by "Herbert" again, a second
  reading record of Alice for book 1, a second review of book 1 by Alice.
\<close>

definition duplicate_book_request :: "book_data request" where
  "duplicate_book_request =
     \<lparr>req_user = 1, query_params = Map.empty, book_pk = 0,
      req_data = \<lparr>data_title = ''Dune'', data_author = ''Herbert'',
                   data_publication_year = None, data_featured = False\<rparr>\<rparr>"

definition duplicate_record_request :: "string request" where
  "duplicate_record_request =
     \<lparr>req_user = 1, query_params = Map.empty, book_pk = 1, req_data = ''read''\<rparr>"

definition duplicate_review_request :: "string request" where
  "duplicate_review_request =
     \<lparr>req_user = 1, query_params = Map.empty, book_pk = 1, req_data = ''again''\<rparr>"

definition review_search_request :: "unit request" where
  "review_search_request =
     \<lparr>req_user = 2, query_params = [''search'' \<mapsto> ''sand''], book_pk = 1, req_data = ()\<rparr>"

definition review1 :: book_review where
  "review1 = \<lparr>review_id = 1, body = ''great sand'', review_book = 1, reviewed_by = Some 1\<rparr>"

definition review2 :: book_review where
  "review2 = \<lparr>review_id = 2, body = ''too long'', review_book = 2, reviewed_by = Some 2\<rparr>"

definition record1 :: book_record where
  "record1 = \<lparr>record_id = 1, record_book = 1, reader = 1, reading_state = ''reading''\<rparr>"

definition record2 :: book_record where
  "record2 = \<lparr>record_id = 2, record_book = 1, reader = 2, reading_state = ''read''\<rparr>"

text \<open>
  Three stand-ins to run the views with: a folding that upper-cases the letters \<open>a\<close> to
  \<open>z\<close> and leaves every other character (the database's folds these letters the same
  way, and others besides), a full-text match that holds when the query occurs in the
  document, and a \<open>reader\<close> policy that cascades.
\<close>

definition ascii_upper_char :: "char \<Rightarrow> char" where
  "ascii_upper_char c =
     (if CHR ''a'' \<le> c \<and> c \<le> CHR ''z'' then char_of (of_char c - (32::nat)) else c)"

definition ascii_upper :: "string \<Rightarrow> string" where
  "ascii_upper s = map ascii_upper_char s"

definition example_body_search :: "string \<Rightarrow> string \<Rightarrow> bool" where
  "example_body_search document query = sublist query document"

definition cascade_reader :: "nat \<Rightarrow> book_record list \<Rightarrow> book_record list option" where
  "cascade_reader u rows = Some (filter (\<lambda>r. reader r \<noteq> u) rows)"

section \<open>Lookups\<close>

lemma find_Some_if: "\<exists>x \<in> set xs. P x \<Longrightarrow> \<exists>y. find P xs = Some y \<and> P y \<and> y \<in> set xs"
  by (induction xs) auto

lemma get_object_or_404_found:
  "\<exists>r \<in> set rows. pk r = k \<Longrightarrow> \<exists>r. get_object_or_404 pk rows k = Inr r \<and> pk r = k \<and> r \<in> set rows"
  using find_Some_if [of rows "\<lambda>r. pk r = k"] by (auto simp: get_object_or_404_def)

lemma get_object_or_404_missing:
  "\<forall>r \<in> set rows. pk r \<noteq> k \<Longrightarrow> get_object_or_404 pk rows k = Inl Http404"
proof -
  assume "\<forall>r \<in> set rows. pk r \<noteq> k"
  then have "find (\<lambda>r. pk r = k) rows = None"
    by (simp add: find_None_iff)
  then show ?thesis
    by (simp add: get_object_or_404_def)
qed

lemma books_example_db: "books example_db = [dune, emma]"
  by (simp add: example_db_def dune_def emma_def)

lemma book_reviews_example_db: "book_reviews example_db = [review1, review2]"
  by (simp add: example_db_def review1_def review2_def)

lemma book_records_example_db: "book_records example_db = [record1, record2]"
  by (simp add: example_db_def record1_def record2_def)

lemma distinct_count_list:
  "distinct xs \<Longrightarrow> count_list xs x = (if x \<in> set xs then 1 else 0)"
  by (induction xs) auto

lemma reviewed_by_collect_SET_NULL_nth:
  assumes "i < length rows"
  shows "reviewed_by_collect SET_NULL u rows ! i
    = (if reviewed_by (rows ! i) = Some u then (rows ! i)\<lparr>reviewed_by := None\<rparr> else rows ! i)"
  using assms by simp

lemma reviewed_by_collect_SET_NULL_length:
  "length (reviewed_by_collect SET_NULL u rows) = length rows"
  by simp

lemma user_delete_succeeds:
  "(\<exists>s'. User_delete reader_collect u s = Some s')
     = (\<exists>rows. reader_collect u (book_records s) = Some rows)"
  by (auto simp: User_delete_def split: option.splits)

section \<open>Uniqueness violations on creation\<close>

text \<open>
  C1. A book creation whose validated title and author are those of a stored book is
  rejected by the database, and \<open>BookViewSet.create\<close> answers 400 with its
  duplicate-book message. A reading-record creation by a user who has a record for the
  book of the URL is rejected by the database, and \<open>BookRecordViewSet.create\<close> answers
  400 with its duplicate-record message. The two messages differ. A request violates a
  constraint when its insert would: it has passed the serializer's field validation, which
  runs before anything is written. The database is left as it was.
\<close>

theorem create_duplicate_400:
  "(run_validation (req_data request) = Inr d \<and>
      (\<exists>b \<in> set (books s). title b = data_title d \<and> author b = data_author d)
     \<longrightarrow> BookViewSet_create run_validation request s = (Inr (Response BookViewSet_error_data 400), s))
   \<and> (run_validation' (req_data request') = Inr st \<and> record_fk_ok s \<and>
      (\<exists>r \<in> set (book_records s). reader r = req_user request' \<and> record_book r = book_pk request')
     \<longrightarrow> BookRecordViewSet_create run_validation' request' s
           = (Inr (Response BookRecordViewSet_error_data 400), s))
   \<and> BookViewSet_error_data \<noteq> BookRecordViewSet_error_data"
proof (intro conjI impI)
  assume "run_validation (req_data request) = Inr d \<and>
      (\<exists>b \<in> set (books s). title b = data_title d \<and> author b = data_author d)"
  then show "BookViewSet_create run_validation request s = (Inr (Response BookViewSet_error_data 400), s)"
    by (simp add: BookViewSet_create_def CreateModelMixin_create_def Book_objects_create_def)
next
  assume a: "run_validation' (req_data request') = Inr st \<and> record_fk_ok s \<and>
      (\<exists>r \<in> set (book_records s). reader r = req_user request' \<and> record_book r = book_pk request')"
  then obtain r where r: "r \<in> set (book_records s)" "reader r = req_user request'"
      "record_book r = book_pk request'" by blast
  from a have "\<forall>x \<in> set (book_records s). \<exists>b \<in> set (books s). book_id b = record_book x"
    by (simp add: record_fk_ok_def list_all_iff list_ex_iff)
  with r have "\<exists>b \<in> set (books s). book_id b = book_pk request'"
    by metis
  then obtain b where b: "get_object_or_404 book_id (books s) (book_pk request') = Inr b"
      "book_id b = book_pk request'"
    using get_object_or_404_found [of "books s" book_id "book_pk request'"] by blast
  have "BookRecordViewSet_perform_create st request' s = (Inl IntegrityError, s)"
    using r b by (auto simp: BookRecordViewSet_perform_create_def BookRecord_objects_create_def)
  with a show "BookRecordViewSet_create run_validation' request' s
           = (Inr (Response BookRecordViewSet_error_data 400), s)"
    by (simp add: BookRecordViewSet_create_def CreateModelMixin_create_def)
next
  show "BookViewSet_error_data \<noteq> BookRecordViewSet_error_data"
    by (simp add: BookViewSet_error_data_def BookRecordViewSet_error_data_def)
qed

theorem create_duplicate_400_witness:
  "BookViewSet_create Inr duplicate_book_request example_db
     = (Inr (Response BookViewSet_error_data 400), example_db)
   \<and> record_fk_ok example_db
   \<and> BookRecordViewSet_create Inr duplicate_record_request example_db
     = (Inr (Response BookRecordViewSet_error_data 400), example_db)"
proof -
  have fk: "record_fk_ok example_db"
    by (simp add: record_fk_ok_def example_db_def)
  have dup_book: "\<exists>b \<in> set (books example_db).
      title b = data_title (req_data duplicate_book_request)
      \<and> author b = data_author (req_data duplicate_book_request)"
    by (simp add: example_db_def duplicate_book_request_def)
  have dup_record: "\<exists>r \<in> set (book_records example_db).
      reader r = req_user duplicate_record_request \<and> record_book r = book_pk duplicate_record_request"
    by (simp add: example_db_def duplicate_record_request_def)
  show ?thesis
    using fk dup_book dup_record
      create_duplicate_400 [where run_validation = Inr and request = duplicate_book_request
        and d = "req_data duplicate_book_request" and s = example_db
        and run_validation' = Inr and request' = duplicate_record_request
        and st = "req_data duplicate_record_request"]
    by blast
qed

lemma review_create_duplicate_raises:
  assumes "run_validation (req_data request) = Inr text"
    and "\<exists>b \<in> set (books s). book_id b = book_pk request"
    and "\<exists>r \<in> set (book_reviews s). reviewed_by r = Some (req_user request) \<and> review_book r = book_pk request"
  shows "dispatch (BookReviewListCreateView_create run_validation request s) = (Inl IntegrityError, s)"
proof -
  obtain b where b: "get_object_or_404 book_id (books s) (book_pk request) = Inr b"
      "book_id b = book_pk request"
    using assms(2) get_object_or_404_found [of "books s" book_id "book_pk request"] by blast
  have "BookReviewListCreateView_perform_create text request s = (Inl IntegrityError, s)"
    using assms(3) b
    by (auto simp: BookReviewListCreateView_perform_create_def BookReview_objects_create_def)
  with assms(1) show ?thesis
    by (simp add: BookReviewListCreateView_create_def CreateModelMixin_create_def dispatch_def)
qed

text \<open>
  C2. Books, reading records and reviews each carry a uniqueness constraint, and the claim
  is that a violation on creation is answered with a structured 400. For reviews it is
  not: \<open>BookReviewListCreateView\<close> has no \<open>create\<close> of its own, so the
  \<open>IntegrityError\<close> of \<open>unique_user_review\<close> passes the framework's exception
  handler unhandled. On the example database Alice's second review of book 1 ends in the
  raw \<open>IntegrityError\<close>, where her second reading record of the same book ends in the
  400 of \<open>BookRecordViewSet.create\<close>.
\<close>

theorem review_duplicate_raw_error:
  "dispatch (BookReviewListCreateView_create Inr duplicate_review_request example_db)
     = (Inl IntegrityError, example_db)
   \<and> dispatch (BookRecordViewSet_create Inr duplicate_record_request example_db)
     = (Inr (Response BookRecordViewSet_error_data 400), example_db)"
  by (simp add: dispatch_def BookReviewListCreateView_create_def CreateModelMixin_create_def
      BookReviewListCreateView_perform_create_def BookReview_objects_create_def
      BookRecordViewSet_create_def BookRecordViewSet_perform_create_def
      BookRecord_objects_create_def
      get_object_or_404_def duplicate_review_request_def duplicate_record_request_def example_db_def)

section \<open>Favorites\<close>

text \<open>
  C3. For every user and every stored book, adding the book to the user's favorites a
  second time gives the response and the database of the first time: the user's
  favorites are the same and hold the book; and when the through table held no pair twice
  before, it holds the pair of this user and this book exactly once after.
\<close>

theorem add_favorite_idempotent:
  assumes "\<exists>b \<in> set (books s). book_id b = book_pk request"
  shows "CreateFavoriteView_post request (snd (CreateFavoriteView_post request s))
           = CreateFavoriteView_post request s
     \<and> favorite_books_all (snd (CreateFavoriteView_post request (snd (CreateFavoriteView_post request s))))
          (req_user request)
         = favorite_books_all (snd (CreateFavoriteView_post request s)) (req_user request)
     \<and> (\<exists>b \<in> set (favorite_books_all (snd (CreateFavoriteView_post request s)) (req_user request)).
           book_id b = book_pk request)
     \<and> (distinct (favorite_books s) \<longrightarrow>
          count_list (favorite_books (snd (CreateFavoriteView_post request s)))
            (req_user request, book_pk request) = 1)"
proof -
  obtain b where b: "get_object_or_404 book_id (books s) (book_pk request) = Inr b"
      "book_id b = book_pk request" "b \<in> set (books s)"
    using assms get_object_or_404_found [of "books s" book_id "book_pk request"] by blast
  define u where "u = req_user request"
  define s1 where "s1 = s\<lparr>favorite_books := favorite_books_add u (book_id b) (favorite_books s)\<rparr>"
  have p1: "CreateFavoriteView_post request s = (Inr (Response (BookDetailSerializer s1 b) 201), s1)"
    using b by (simp add: CreateFavoriteView_post_def Let_def s1_def u_def)
  have mem: "(u, book_id b) \<in> set (favorite_books s1)"
    by (simp add: favorite_books_add_def s1_def)
  then have again: "favorite_books_add u (book_id b) (favorite_books s1) = favorite_books s1"
    by (simp add: favorite_books_add_def)
  have g1: "get_object_or_404 book_id (books s1) (book_pk request) = Inr b"
    using b by (simp add: s1_def)
  have p2: "CreateFavoriteView_post request s1 = (Inr (Response (BookDetailSerializer s1 b) 201), s1)"
    by (simp add: CreateFavoriteView_post_def Let_def g1 again u_def [symmetric])
  have c: "distinct (favorite_books s) \<longrightarrow> count_list (favorite_books s1) (u, book_id b) = 1"
    by (simp add: s1_def favorite_books_add_def distinct_count_list)
  have fav: "\<exists>x \<in> set (favorite_books_all s1 u). book_id x = book_pk request"
    using b mem by (auto simp: favorite_books_all_def s1_def)
  have snd1: "snd (CreateFavoriteView_post request s) = s1"
    by (simp only: p1 snd_conv)
  show ?thesis
    unfolding snd1 using p1 p2 c fav b by (simp add: u_def)
qed

theorem add_favorite_idempotent_witness:
  "(\<exists>b \<in> set (books example_db). book_id b = book_pk example_request)
   \<and> distinct (favorite_books example_db)
   \<and> (req_user example_request, book_pk example_request) \<notin> set (favorite_books example_db)
   \<and> CreateFavoriteView_post example_request (snd (CreateFavoriteView_post example_request example_db))
       = CreateFavoriteView_post example_request example_db
   \<and> count_list (favorite_books (snd (CreateFavoriteView_post example_request example_db)))
       (req_user example_request, book_pk example_request) = 1"
proof -
  have h: "\<exists>b \<in> set (books example_db). book_id b = book_pk example_request"
    by (simp add: example_db_def example_request_def)
  have d: "distinct (favorite_books example_db)"
    "(req_user example_request, book_pk example_request) \<notin> set (favorite_books example_db)"
    by (simp_all add: example_db_def example_request_def)
  from h d add_favorite_idempotent [OF h] show ?thesis
    by blast
qed

section \<open>The read-only lists\<close>

text \<open>
  C4. On every database the \<open>featured\<close> action answers 200 with a list in which every
  element has \<open>featured\<close> true and is the serialization of a stored book whose flag is
  set, and in which the serialization of every stored book whose flag is set occurs.
\<close>

theorem featured_exactly_flagged:
  "\<exists>items. BookViewSet_featured request s = (Inr (Response (JList items) 200), s)
     \<and> (\<forall>d \<in> set items. json_field ''featured'' d = Some (JBool True)
           \<and> (\<exists>b \<in> set (books s). featured b \<and> d = BookDetailSerializer s b))
     \<and> (\<forall>b \<in> set (books s). featured b \<longrightarrow> BookDetailSerializer s b \<in> set items)"
  by (auto simp: BookViewSet_featured_def json_field_def BookDetailSerializer_def)

theorem featured_exactly_flagged_witness:
  "featured dune \<and> dune \<in> set (books example_db)
   \<and> (\<exists>items. BookViewSet_featured example_request example_db
          = (Inr (Response (JList items) 200), example_db)
        \<and> BookDetailSerializer example_db dune \<in> set items
        \<and> BookDetailSerializer example_db emma \<notin> set items)"
proof -
  obtain items where
    r: "BookViewSet_featured example_request example_db = (Inr (Response (JList items) 200), example_db)"
    and only: "\<forall>d \<in> set items. json_field ''featured'' d = Some (JBool True)
           \<and> (\<exists>b \<in> set (books example_db). featured b \<and> d = BookDetailSerializer example_db b)"
    and every: "\<forall>b \<in> set (books example_db). featured b \<longrightarrow> BookDetailSerializer example_db b \<in> set items"
    using featured_exactly_flagged [of example_request example_db] by blast
  have d: "featured dune" "dune \<in> set (books example_db)"
    by (simp_all add: books_example_db) (simp add: dune_def)
  have "json_field ''featured'' (BookDetailSerializer example_db emma) \<noteq> Some (JBool True)"
    by (simp add: json_field_def BookDetailSerializer_def emma_def)
  with only have "BookDetailSerializer example_db emma \<notin> set items"
    by blast
  with r d every show ?thesis
    by blast
qed

text \<open>
  C5. With a \<open>search\<close> query parameter \<open>t\<close>, the book list answers with the
  serializations of exactly the stored books whose title, folded to upper case by the
  database, has \<open>t\<close>, folded the same way, as a contiguous part: the title contains
  \<open>t\<close> as a substring up to the case of letters. This holds for whatever folding the
  database applies. Without the parameter the list answers with the serializations of all
  stored books, each as often as it is stored.
\<close>

theorem book_list_search:
  "(query_params request ''search'' = Some t \<longrightarrow>
      (\<exists>bs. BookViewSet_list db_upper request s
          = (Inr (Response (JList (map BookSerializer bs)) 200), s)
         \<and> set bs = {b \<in> set (books s). \<exists>pre post. db_upper (title b) = pre @ db_upper t @ post}))
   \<and> (query_params request ''search'' = None \<longrightarrow>
      (\<exists>bs. BookViewSet_list db_upper request s
          = (Inr (Response (JList (map BookSerializer bs)) 200), s)
         \<and> set bs = set (books s) \<and> mset bs = mset (books s)))"
proof (intro conjI impI)
  assume q: "query_params request ''search'' = Some t"
  show "\<exists>bs. BookViewSet_list db_upper request s
          = (Inr (Response (JList (map BookSerializer bs)) 200), s)
         \<and> set bs = {b \<in> set (books s). \<exists>pre post. db_upper (title b) = pre @ db_upper t @ post}"
    by (rule exI [of _ "filter (\<lambda>b. icontains db_upper (title b) t) (books s)"])
      (auto simp: q BookViewSet_list_def ListModelMixin_list_def BookViewSet_get_queryset_def
        icontains_def sublist_def)
next
  assume q: "query_params request ''search'' = None"
  show "\<exists>bs. BookViewSet_list db_upper request s
          = (Inr (Response (JList (map BookSerializer bs)) 200), s)
         \<and> set bs = set (books s) \<and> mset bs = mset (books s)"
    by (rule exI [of _ "sort_key title (books s)"])
      (simp add: q BookViewSet_list_def ListModelMixin_list_def BookViewSet_get_queryset_def)
qed

theorem book_list_search_witness:
  "query_params search_request ''search'' = Some ''uN''
   \<and> query_params example_request ''search'' = None
   \<and> (\<exists>bs. BookViewSet_list ascii_upper search_request example_db
          = (Inr (Response (JList (map BookSerializer bs)) 200), example_db)
        \<and> set bs = {dune})
   \<and> (\<exists>bs. BookViewSet_list ascii_upper example_request example_db
          = (Inr (Response (JList (map BookSerializer bs)) 200), example_db)
        \<and> set bs = {dune, emma})"
proof -
  have q1: "query_params search_request ''search'' = Some ''uN''"
    by (simp add: search_request_def)
  have q2: "query_params example_request ''search'' = None"
    by (simp add: example_request_def)
  have u: "ascii_upper ''uN'' = ''UN''" "ascii_upper (title dune) = ''DUNE''"
    "ascii_upper (title emma) = ''EMMA''"
    by (simp_all add: dune_def emma_def) code_simp+
  have "ascii_upper (title dune) = ''D'' @ ascii_upper ''uN'' @ ''E''"
    by (simp add: u)
  then have in_dune: "\<exists>pre post. ascii_upper (title dune) = pre @ ascii_upper ''uN'' @ post"
    by blast
  have "\<not> sublist ''UN'' ''EMMA''"
    by code_simp
  then have out_emma: "\<not> (\<exists>pre post. ascii_upper (title emma) = pre @ ascii_upper ''uN'' @ post)"
    by (simp add: u sublist_def)
  have s: "{b \<in> set (books example_db).
      \<exists>pre post. ascii_upper (title b) = pre @ ascii_upper ''uN'' @ post} = {dune}"
    using in_dune out_emma by (auto simp: books_example_db)
  have a: "\<exists>bs. BookViewSet_list ascii_upper search_request example_db
          = (Inr (Response (JList (map BookSerializer bs)) 200), example_db) \<and> set bs = {dune}"
    using q1 book_list_search [of search_request "''uN''" ascii_upper example_db]
    unfolding s by blast
  have "set (books example_db) = {dune, emma}"
    by (simp add: books_example_db)
  with q2 have b: "\<exists>bs. BookViewSet_list ascii_upper example_request example_db
          = (Inr (Response (JList (map BookSerializer bs)) 200), example_db) \<and> set bs = {dune, emma}"
    using book_list_search [of example_request "''uN''" ascii_upper example_db] by auto
  from q1 q2 a b show ?thesis
    by blast
qed

text \<open>
  C6. The review list nested under a book answers with serializations of stored reviews
  of that book only. With a \<open>search\<close> query parameter these are exactly the reviews of
  the book whose body the full-text match accepts for the term; without it, exactly the
  reviews of the book.
\<close>

theorem review_list_of_book:
  "\<exists>rs. BookReviewListCreateView_list body_search request s
        = (Inr (Response (JList (map (BookReviewSerializer s) rs)) 200), s)
     \<and> set rs \<subseteq> set (book_reviews s)
     \<and> (\<forall>r \<in> set rs. review_book r = book_pk request)
     \<and> (\<forall>t. query_params request ''search'' = Some t \<longrightarrow>
          set rs = {r \<in> set (book_reviews s). review_book r = book_pk request \<and> body_search (body r) t})
     \<and> (query_params request ''search'' = None \<longrightarrow>
          set rs = {r \<in> set (book_reviews s). review_book r = book_pk request})"
  by (rule exI [of _ "BookReviewListCreateView_get_queryset body_search request s"])
    (auto simp: BookReviewListCreateView_list_def ListModelMixin_list_def
      BookReviewListCreateView_get_queryset_def Let_def split: option.splits)

theorem review_list_of_book_witness:
  "query_params review_search_request ''search'' = Some ''sand''
   \<and> (\<exists>rs. BookReviewListCreateView_list example_body_search review_search_request example_db
          = (Inr (Response (JList (map (BookReviewSerializer example_db) rs)) 200), example_db)
        \<and> set rs = {review1})
   \<and> query_params bob_request ''search'' = None
   \<and> (\<exists>rs. BookReviewListCreateView_list example_body_search bob_request example_db
          = (Inr (Response (JList (map (BookReviewSerializer example_db) rs)) 200), example_db)
        \<and> set rs = {review2})"
proof -
  have q1: "query_params review_search_request ''search'' = Some ''sand''"
    by (simp add: review_search_request_def)
  have q2: "query_params example_request ''search'' = None" "query_params bob_request ''search'' = None"
    by (simp_all add: example_request_def bob_request_def)
  have m: "example_body_search (body review1) ''sand''"
    unfolding example_body_search_def review1_def by code_simp
  have k: "book_pk review_search_request = 1" "book_pk bob_request = 2"
    "review_book review1 = 1" "review_book review2 = 2"
    by (simp_all add: review_search_request_def bob_request_def review1_def review2_def)
  have s1: "{r \<in> set (book_reviews example_db). review_book r = book_pk review_search_request
              \<and> example_body_search (body r) ''sand''} = {review1}"
    using m by (auto simp: book_reviews_example_db k)
  have s2: "{r \<in> set (book_reviews example_db). review_book r = book_pk bob_request} = {review2}"
    by (auto simp: book_reviews_example_db k)
  have a: "\<exists>rs. BookReviewListCreateView_list example_body_search review_search_request example_db
          = (Inr (Response (JList (map (BookReviewSerializer example_db) rs)) 200), example_db)
        \<and> set rs = {review1}"
    using q1 s1 review_list_of_book [of example_body_search review_search_request example_db]
    by auto
  have b: "\<exists>rs. BookReviewListCreateView_list example_body_search bob_request example_db
          = (Inr (Response (JList (map (BookReviewSerializer example_db) rs)) 200), example_db)
        \<and> set rs = {review2}"
    using q2 s2 review_list_of_book [of example_body_search bob_request example_db]
    by auto
  from q1 q2 a b show ?thesis
    by blast
qed

text \<open>
  C7. The \<open>favorites\<close> action answers with the serializations of exactly the stored
  books that the through table joins to the requesting user; a stored book that the table
  does not join to this user is not among them, whoever else has it as a favorite.
\<close>

theorem favorites_of_user:
  "\<exists>bs. BookViewSet_favorites request s
        = (Inr (Response (JList (map (BookDetailSerializer s) bs)) 200), s)
     \<and> set bs = {b \<in> set (books s). (req_user request, book_id b) \<in> set (favorite_books s)}
     \<and> (\<forall>b \<in> set (books s). (req_user request, book_id b) \<notin> set (favorite_books s) \<longrightarrow> b \<notin> set bs)"
  by (auto simp: BookViewSet_favorites_def favorite_books_all_def)

theorem favorites_of_user_witness:
  "(\<exists>bs. BookViewSet_favorites bob_request example_db
        = (Inr (Response (JList (map (BookDetailSerializer example_db) bs)) 200), example_db)
      \<and> set bs = {emma})
   \<and> (\<exists>bs. BookViewSet_favorites example_request example_db
        = (Inr (Response (JList (map (BookDetailSerializer example_db) bs)) 200), example_db)
      \<and> set bs = {})"
proof -
  have f: "favorite_books example_db = [(2, 2)]" "req_user bob_request = 2"
    "req_user example_request = 1" "book_id dune = 1" "book_id emma = 2"
    by (simp_all add: example_db_def bob_request_def example_request_def dune_def emma_def)
  have s1: "{b \<in> set (books example_db). (req_user bob_request, book_id b) \<in> set (favorite_books example_db)}
      = {emma}"
    by (auto simp: books_example_db f)
  have s2: "{b \<in> set (books example_db). (req_user example_request, book_id b) \<in> set (favorite_books example_db)}
      = {}"
    by (auto simp: books_example_db f)
  show ?thesis
    using favorites_of_user [of bob_request example_db]
      favorites_of_user [of example_request example_db]
    unfolding s1 s2 by blast
qed

section \<open>Deleting a user who wrote reviews\<close>

text \<open>
  C8. When the deletion of a user goes through, the review table keeps its rows in place:
  every row keeps its primary key, body and book, the rows the user reviewed have a null
  \<open>reviewed_by\<close>, and the other rows keep theirs. The user's own row is gone.
\<close>

theorem user_delete_nulls_reviewer:
  assumes "User_delete reader_collect u s = Some s'"
  shows "length (book_reviews s') = length (book_reviews s)
    \<and> (\<forall>i < length (book_reviews s).
          review_id (book_reviews s' ! i) = review_id (book_reviews s ! i)
        \<and> body (book_reviews s' ! i) = body (book_reviews s ! i)
        \<and> review_book (book_reviews s' ! i) = review_book (book_reviews s ! i)
        \<and> (reviewed_by (book_reviews s ! i) = Some u \<longrightarrow> reviewed_by (book_reviews s' ! i) = None)
        \<and> (reviewed_by (book_reviews s ! i) \<noteq> Some u \<longrightarrow>
              reviewed_by (book_reviews s' ! i) = reviewed_by (book_reviews s ! i)))
    \<and> (\<forall>x \<in> set (users s'). user_id x \<noteq> u)"
proof -
  from assms have r: "book_reviews s' = reviewed_by_collect SET_NULL u (book_reviews s)"
    and us: "users s' = filter (\<lambda>x. user_id x \<noteq> u) (users s)"
    by (auto simp: User_delete_def BookReview_reviewed_by_on_delete_def split: option.splits)
  show ?thesis
    unfolding r us
    by (simp add: reviewed_by_collect_SET_NULL_nth reviewed_by_collect_SET_NULL_length
        del: reviewed_by_collect.simps)
qed

theorem user_delete_nulls_reviewer_witness:
  "\<exists>s'. User_delete cascade_reader 1 example_db = Some s'
     \<and> book_reviews s' = [review1\<lparr>reviewed_by := None\<rparr>, review2]"
proof -
  obtain s' where s': "User_delete cascade_reader 1 example_db = Some s'"
    by (simp add: User_delete_def cascade_reader_def)
  have l: "length (book_reviews example_db) = 2"
    "book_reviews example_db ! 0 = review1" "book_reviews example_db ! 1 = review2"
    by (simp_all add: book_reviews_example_db)
  have v: "reviewed_by review1 = Some 1" "reviewed_by review2 \<noteq> Some 1"
    by (simp_all add: review1_def review2_def)
  from user_delete_nulls_reviewer [OF s'] have
    n: "length (book_reviews s') = 2"
    and a: "\<forall>i < 2.
          review_id (book_reviews s' ! i) = review_id (book_reviews example_db ! i)
        \<and> body (book_reviews s' ! i) = body (book_reviews example_db ! i)
        \<and> review_book (book_reviews s' ! i) = review_book (book_reviews example_db ! i)
        \<and> (reviewed_by (book_reviews example_db ! i) = Some 1 \<longrightarrow> reviewed_by (book_reviews s' ! i) = None)
        \<and> (reviewed_by (book_reviews example_db ! i) \<noteq> Some 1 \<longrightarrow>
              reviewed_by (book_reviews s' ! i) = reviewed_by (book_reviews example_db ! i))"
    unfolding l(1) by blast+
  from a v have a0: "book_reviews s' ! 0 = review1\<lparr>reviewed_by := None\<rparr>"
    unfolding l(2) [symmetric] by (auto intro: book_review.equality)
  from a v have a1: "book_reviews s' ! 1 = review2"
    unfolding l(3) [symmetric] by (auto intro: book_review.equality)
  from n a0 a1 have "book_reviews s' = [review1\<lparr>reviewed_by := None\<rparr>, review2]"
    by (intro nth_equalityI) (auto simp: less_Suc_eq numeral_2_eq_2)
  with s' show ?thesis
    by blast
qed

section \<open>Reading records and the add-favorite response\<close>

text \<open>
  C9. The reading-record list nested under a book answers with the serializations of
  exactly the stored records whose reader is the requesting user and whose book is the
  one of the URL; a stored record of another reader is never among them.
\<close>

theorem record_list_own:
  "\<exists>rs. BookRecordViewSet_list request s
        = (Inr (Response (JList (map (BookRecordSerializer s) rs)) 200), s)
     \<and> set rs = {r \<in> set (book_records s). reader r = req_user request \<and> record_book r = book_pk request}
     \<and> (\<forall>r \<in> set rs. reader r = req_user request \<and> record_book r = book_pk request)
     \<and> (\<forall>r \<in> set (book_records s). reader r \<noteq> req_user request \<longrightarrow> r \<notin> set rs)"
  by (rule exI [of _ "BookRecordViewSet_get_queryset request s"])
    (auto simp: BookRecordViewSet_list_def ListModelMixin_list_def BookRecordViewSet_get_queryset_def)

theorem record_list_own_witness:
  "reader record2 \<noteq> req_user example_request
   \<and> (\<exists>rs. BookRecordViewSet_list example_request example_db
        = (Inr (Response (JList (map (BookRecordSerializer example_db) rs)) 200), example_db)
      \<and> set rs = {record1} \<and> record2 \<notin> set rs)"
proof -
  have f: "req_user example_request = 1" "book_pk example_request = 1"
    "reader record1 = 1" "reader record2 = 2" "record_book record1 = 1" "record_book record2 = 1"
    by (simp_all add: example_request_def record1_def record2_def)
  have s1: "{r \<in> set (book_records example_db).
      reader r = req_user example_request \<and> record_book r = book_pk example_request} = {record1}"
    by (auto simp: book_records_example_db f)
  have "record2 \<in> set (book_records example_db)"
    by (simp add: book_records_example_db)
  then show ?thesis
    using record_list_own [of example_request example_db] unfolding s1
    by (auto simp: f)
qed

text \<open>
  C10. For a stored book the add-favorite view answers 201 with the book serialized,
  whatever the through table held before, and afterwards the table holds the pair of the
  user and the book besides what it held. For a book id that no stored book has, it
  answers 404 and the database, the favorites with it, is as it was.
\<close>

theorem add_favorite_status:
  "((\<exists>b \<in> set (books s). book_id b = book_pk request) \<longrightarrow>
      (\<exists>b s'. b \<in> set (books s) \<and> book_id b = book_pk request
         \<and> dispatch (CreateFavoriteView_post request s)
             = (Inr (Response (BookDetailSerializer s' b) 201), s')
         \<and> BookDetailSerializer s' b = BookDetailSerializer s b
         \<and> set (favorite_books s')
             = insert (req_user request, book_pk request) (set (favorite_books s))))
   \<and> ((\<forall>b \<in> set (books s). book_id b \<noteq> book_pk request) \<longrightarrow>
      dispatch (CreateFavoriteView_post request s)
        = (Inr (Response (JDict [(''detail'', JStr ''Not found.'')]) 404), s))"
proof (intro conjI impI)
  assume "\<exists>b \<in> set (books s). book_id b = book_pk request"
  then obtain b where b: "get_object_or_404 book_id (books s) (book_pk request) = Inr b"
      "book_id b = book_pk request" "b \<in> set (books s)"
    using get_object_or_404_found [of "books s" book_id "book_pk request"] by blast
  define s' where
    "s' = s\<lparr>favorite_books := favorite_books_add (req_user request) (book_id b) (favorite_books s)\<rparr>"
  have "dispatch (CreateFavoriteView_post request s) = (Inr (Response (BookDetailSerializer s' b) 201), s')"
    using b by (simp add: CreateFavoriteView_post_def Let_def dispatch_def s'_def)
  moreover have "BookDetailSerializer s' b = BookDetailSerializer s b"
    by (simp add: BookDetailSerializer_def book_reviews_of_def s'_def)
  moreover have "set (favorite_books s')
      = insert (req_user request, book_pk request) (set (favorite_books s))"
    using b by (auto simp: s'_def favorite_books_add_def)
  ultimately show "\<exists>b s'. b \<in> set (books s) \<and> book_id b = book_pk request
         \<and> dispatch (CreateFavoriteView_post request s)
             = (Inr (Response (BookDetailSerializer s' b) 201), s')
         \<and> BookDetailSerializer s' b = BookDetailSerializer s b
         \<and> set (favorite_books s')
             = insert (req_user request, book_pk request) (set (favorite_books s))"
    using b by blast
next
  assume "\<forall>b \<in> set (books s). book_id b \<noteq> book_pk request"
  then have "get_object_or_404 book_id (books s) (book_pk request) = Inl Http404"
    by (rule get_object_or_404_missing)
  then show "dispatch (CreateFavoriteView_post request s)
        = (Inr (Response (JDict [(''detail'', JStr ''Not found.'')]) 404), s)"
    by (simp add: CreateFavoriteView_post_def dispatch_def)
qed

theorem add_favorite_status_witness:
  "(req_user example_request, book_pk example_request) \<notin> set (favorite_books example_db)
   \<and> fst (dispatch (CreateFavoriteView_post example_request example_db))
       = Inr (Response (BookDetailSerializer example_db dune) 201)
   \<and> (req_user bob_request, book_pk bob_request) \<in> set (favorite_books example_db)
   \<and> fst (dispatch (CreateFavoriteView_post bob_request example_db))
       = Inr (Response (BookDetailSerializer example_db emma) 201)
   \<and> dispatch (CreateFavoriteView_post missing_book_request example_db)
       = (Inr (Response (JDict [(''detail'', JStr ''Not found.'')]) 404), example_db)"
proof -
  have k: "book_pk example_request = 1" "book_pk bob_request = 2" "book_pk missing_book_request = 7"
    "book_id dune = 1" "book_id emma = 2"
    by (simp_all add: example_request_def bob_request_def missing_book_request_def dune_def emma_def)
  have f: "(req_user example_request, book_pk example_request) \<notin> set (favorite_books example_db)"
    "(req_user bob_request, book_pk bob_request) \<in> set (favorite_books example_db)"
    by (simp_all add: example_request_def bob_request_def example_db_def)
  have e1: "\<exists>b \<in> set (books example_db). book_id b = book_pk example_request"
    and e2: "\<exists>b \<in> set (books example_db). book_id b = book_pk bob_request"
    and e3: "\<forall>b \<in> set (books example_db). book_id b \<noteq> book_pk missing_book_request"
    by (simp_all add: books_example_db k)
  have only1: "\<And>b. b \<in> set (books example_db) \<Longrightarrow> book_id b = book_pk example_request \<Longrightarrow> b = dune"
    and only2: "\<And>b. b \<in> set (books example_db) \<Longrightarrow> book_id b = book_pk bob_request \<Longrightarrow> b = emma"
    by (auto simp: books_example_db k)
  have a: "fst (dispatch (CreateFavoriteView_post example_request example_db))
       = Inr (Response (BookDetailSerializer example_db dune) 201)"
    using e1 only1 add_favorite_status [of example_db example_request] by fastforce
  have b: "fst (dispatch (CreateFavoriteView_post bob_request example_db))
       = Inr (Response (BookDetailSerializer example_db emma) 201)"
    using e2 only2 add_favorite_status [of example_db bob_request] by fastforce
  have c: "dispatch (CreateFavoriteView_post missing_book_request example_db)
       = (Inr (Response (JDict [(''detail'', JStr ''Not found.'')]) 404), example_db)"
    using e3 add_favorite_status [of example_db missing_book_request] by blast
  from f a b c show ?thesis
    by blast
qed

end
